theory Spec2Isabelle
  imports Complex_Main
begin

section \<open>Values\<close>

text \<open>
  The poster editor exists in three revisions of one React component:
  \<^item> \<^verbatim>\<open>src/components/PosterGenerator.tsx\<close> (built on react-resizable; image, title
    and QR code; names below end in \<open>_r\<close>);
  \<^item> the first component of \<^verbatim>\<open>src/unnamed/part_001\<close> (re-resizable, optional image;
    names end in \<open>_a\<close> or carry no suffix);
  \<^item> the second component of \<^verbatim>\<open>src/unnamed/part_001\<close> (re-resizable, strict schema,
    default positions reset by an effect; names end in \<open>_b\<close>).

  A JavaScript number is modelled as a real: the arithmetic of the component is exact
  here, the rounding of IEEE doubles is not part of the model.

  \<open>{ x, y }\<close> and \<open>{ width, height }\<close> objects are records; an \<open>HTMLImageElement\<close>
  that has loaded is its source (the data URL) and its intrinsic pixel size.
\<close>

record point =
  pos_x :: real
  pos_y :: real

record 'v dims =
  width :: 'v
  height :: 'v

record img =
  img_src :: string
  img_width :: real
  img_height :: real

text \<open>
  The two form fields \<^verbatim>\<open>width\<close> and \<^verbatim>\<open>height\<close> are registered without
  \<^verbatim>\<open>valueAsNumber\<close>: what \<^verbatim>\<open>watch\<close> returns for an edited field is the text of the
  input, a string. In the second component of part_001 the default values are numbers
  (lines 297-298), so a watched value is a number until the field is edited and a string
  from then on, and what the component copies from it is a number or a string too.
\<close>

datatype numstr = Numeric real | Text string

text \<open>
  What the JavaScript runtime does with strings is a parameter of the model: the number a
  string converts to (\<^verbatim>\<open>Number(s)\<close>, and the implicit conversion of \<^verbatim>\<open>/\<close>, \<^verbatim>\<open>*\<close>,
  \<^verbatim>\<open>-\<close> and \<^verbatim>\<open>>\<close>), the string a number converts to (in \<^verbatim>\<open>+\<close> with a string), and
  whether zod's \<^verbatim>\<open>url()\<close> check accepts a string. The fields are number inputs, whose
  text is empty or a numeral: a string that converts to \<^verbatim>\<open>NaN\<close> is outside the model.
\<close>

record runtime =
  StringToNumber :: "string \<Rightarrow> real"
  NumberToString :: "real \<Rightarrow> string"
  isURL :: "string \<Rightarrow> bool"

fun ToNumber :: "runtime \<Rightarrow> numstr \<Rightarrow> real" where
  "ToNumber rt (Numeric x) = x"
| "ToNumber rt (Text t) = StringToNumber rt t"

text \<open>\<^verbatim>\<open>v + y\<close> for a number \<open>y\<close>: addition of numbers, concatenation with a string.\<close>

fun plus_number :: "runtime \<Rightarrow> numstr \<Rightarrow> real \<Rightarrow> numstr" where
  "plus_number rt (Numeric x) y = Numeric (x + y)"
| "plus_number rt (Text t) y = Text (t @ NumberToString rt y)"

section \<open>Image geometry\<close>

text \<open>
  The body of \<^verbatim>\<open>img.onload\<close> in the first component of part_001 (lines 102-113): the
  size handed to \<^verbatim>\<open>setImageSize\<close>, from the loaded image and the numbers
  \<^verbatim>\<open>Number(watchWidth)\<close> and \<^verbatim>\<open>Number(watchHeight)\<close>.
\<close>

definition img_onload :: "img \<Rightarrow> real \<Rightarrow> real \<Rightarrow> real dims" where
  "img_onload i watchWidth watchHeight =
     (let aspectRatio = img_width i / img_height i;
          newWidth = watchWidth;
          newHeight = newWidth / aspectRatio
      in if newHeight > watchHeight
         then (let newHeight' = watchHeight;
                   newWidth' = newHeight' * aspectRatio
               in \<lparr>width = newWidth', height = newHeight'\<rparr>)
         else \<lparr>width = newWidth, height = newHeight\<rparr>)"

text \<open>
  The same body in the second component (lines 312-322 and 369-380), where the watched
  values are used as they are: \<^verbatim>\<open>newWidth = watchWidth\<close> and
  \<^verbatim>\<open>newHeight = watchHeight\<close> copy the value, number or string, and the division, the
  comparison and the product convert it.
\<close>

definition img_onload_b :: "runtime \<Rightarrow> img \<Rightarrow> numstr \<Rightarrow> numstr \<Rightarrow> numstr dims" where
  "img_onload_b rt i watchWidth watchHeight =
     (let aspectRatio = img_width i / img_height i;
          newWidth = watchWidth;
          newHeight = ToNumber rt newWidth / aspectRatio
      in if newHeight > ToNumber rt watchHeight
         then (let newHeight' = watchHeight;
                   newWidth' = ToNumber rt newHeight' * aspectRatio
               in \<lparr>width = Numeric newWidth', height = newHeight'\<rparr>)
         else \<lparr>width = newWidth, height = Numeric newHeight\<rparr>)"

section \<open>Form schema\<close>

text \<open>
  The \<^verbatim>\<open>width\<close> and \<^verbatim>\<open>height\<close> entries of \<^verbatim>\<open>formSchema\<close>. A raw value is a string, a
  number or \<^verbatim>\<open>undefined\<close>; a failed check is a zod issue with its code and message.

  PosterGenerator.tsx, lines 31-32:
  \<^verbatim>\<open>z.string().regex(/^\d+$/, "Width must be a number").transform(Number)\<close>.
  The class \<^verbatim>\<open>\d\<close> is the characters \<^verbatim>\<open>0\<close> to \<^verbatim>\<open>9\<close>, codes 48 to 57. On a string of
  decimal digits \<^verbatim>\<open>Number\<close> is the decimal value.
\<close>

datatype jsval = JString string | JNumber real | JUndefined

datatype zod_issue = invalid_type | invalid_string string | too_small string

definition digit :: "char \<Rightarrow> bool" where
  "digit c \<longleftrightarrow> (48::nat) \<le> of_char c \<and> of_char c \<le> (57::nat)"

definition matches_digits :: "string \<Rightarrow> bool" where
  "matches_digits v \<longleftrightarrow> v \<noteq> [] \<and> list_all digit v"

definition Number_digits :: "string \<Rightarrow> nat" where
  "Number_digits v = foldl (\<lambda>n c. 10 * n + (of_char c - 48)) 0 v"

definition width_r :: "jsval \<Rightarrow> zod_issue + real" where
  "width_r v =
     (case v of
        JString t \<Rightarrow>
          if matches_digits t then Inr (real (Number_digits t))
          else Inl (invalid_string ''Width must be a number'')
      | _ \<Rightarrow> Inl invalid_type)"

definition height_r :: "jsval \<Rightarrow> zod_issue + real" where
  "height_r v =
     (case v of
        JString t \<Rightarrow>
          if matches_digits t then Inr (real (Number_digits t))
          else Inl (invalid_string ''Height must be a number'')
      | _ \<Rightarrow> Inl invalid_type)"

text \<open>
  part_001, lines 23-24:
  \<^verbatim>\<open>z.string().min(1, "Width must be a positive number").transform((val) => Number(val))\<close>.
  \<^verbatim>\<open>min\<close> on a string bounds its length. \<^verbatim>\<open>Number\<close> on an arbitrary string is a
  parameter.
\<close>

definition width_a :: "(string \<Rightarrow> 'n) \<Rightarrow> jsval \<Rightarrow> zod_issue + 'n" where
  "width_a Number v =
     (case v of
        JString t \<Rightarrow>
          if 1 \<le> length t then Inr (Number t)
          else Inl (too_small ''Width must be a positive number'')
      | _ \<Rightarrow> Inl invalid_type)"

definition height_a :: "(string \<Rightarrow> 'n) \<Rightarrow> jsval \<Rightarrow> zod_issue + 'n" where
  "height_a Number v =
     (case v of
        JString t \<Rightarrow>
          if 1 \<le> length t then Inr (Number t)
          else Inl (too_small ''Height must be a positive number'')
      | _ \<Rightarrow> Inl invalid_type)"

text \<open>
  part_001, lines 271-272: \<^verbatim>\<open>z.number().min(1, "Width must be a positive number")\<close>.
\<close>

definition width_b :: "jsval \<Rightarrow> zod_issue + real" where
  "width_b v =
     (case v of
        JNumber n \<Rightarrow>
          if 1 \<le> n then Inr n else Inl (too_small ''Width must be a positive number'')
      | _ \<Rightarrow> Inl invalid_type)"

definition height_b :: "jsval \<Rightarrow> zod_issue + real" where
  "height_b v =
     (case v of
        JNumber n \<Rightarrow>
          if 1 \<le> n then Inr n else Inl (too_small ''Height must be a positive number'')
      | _ \<Rightarrow> Inl invalid_type)"

text \<open>
  The decimal numeral of a natural number, as typed into the field: the inputs the regular
  expression is meant to let through.
\<close>

fun decimal :: "nat \<Rightarrow> string" where
  "decimal n = (if n < 10 then [char_of (48 + n)]
                else decimal (n div 10) @ [char_of (48 + n mod 10)])"

declare decimal.simps [simp del]

text \<open>
  The submitted form. A file is its size, its MIME type and the image it decodes to;
  \<^verbatim>\<open>data.image\<close> is \<^verbatim>\<open>null\<close> (the default value, \<open>None\<close>) or the list of chosen files.
  The image entry of the schema in PosterGenerator.tsx (lines 17-30) and in the second
  component of part_001 (lines 256-270): exactly one file, of at most 5000000 bytes, of an
  accepted type. The first component has \<^verbatim>\<open>image: z.any()\<close>.
\<close>

record image_file =
  file_size :: nat
  file_type :: string
  file_image :: img

record form =
  form_title :: string
  form_url :: string
  form_image :: "image_file list option"

definition MAX_FILE_SIZE :: nat where
  "MAX_FILE_SIZE = 5000000"

definition ACCEPTED_IMAGE_TYPES :: "string list" where
  "ACCEPTED_IMAGE_TYPES = [''image/jpeg'', ''image/jpg'', ''image/png'', ''image/webp'']"

definition image_schema :: "image_file list option \<Rightarrow> bool" where
  "image_schema files \<longleftrightarrow>
     (case files of
        Some [f] \<Rightarrow> file_size f \<le> MAX_FILE_SIZE \<and> file_type f \<in> set ACCEPTED_IMAGE_TYPES
      | _ \<Rightarrow> False)"

definition succeeds :: "'e + 'a \<Rightarrow> bool" where
  "succeeds res = (case res of Inl e \<Rightarrow> False | Inr v \<Rightarrow> True)"

definition raw :: "numstr \<Rightarrow> jsval" where
  "raw v = (case v of Numeric x \<Rightarrow> JNumber x | Text t \<Rightarrow> JString t)"

section \<open>Editor state\<close>

text \<open>
  The \<^verbatim>\<open>useState\<close> cells of the first component of part_001 (lines 28-41) and the two
  form fields it watches, strings with the default values \<^verbatim>\<open>"344"\<close> and \<^verbatim>\<open>"444"\<close>.
  \<^verbatim>\<open>imagePreview\<close> holds the data URL; the model keeps with it the intrinsic size the
  browser decodes from it.
\<close>

datatype layer = Image | Title | Subtitle | QRCode

record editor =
  imagePreview :: "img option"
  generatedPoster :: bool
  titlePosition :: point
  subtitlePosition :: point
  qrCodePosition :: point
  imagePosition :: point
  imageSize :: "real dims"
  watchWidth :: string
  watchHeight :: string

definition useState_a :: editor where
  "useState_a =
     \<lparr>imagePreview = None, generatedPoster = False,
      titlePosition = \<lparr>pos_x = 20, pos_y = 20\<rparr>,
      subtitlePosition = \<lparr>pos_x = 20, pos_y = 80\<rparr>,
      qrCodePosition = \<lparr>pos_x = 20, pos_y = 140\<rparr>,
      imagePosition = \<lparr>pos_x = 0, pos_y = 0\<rparr>,
      imageSize = \<lparr>width = 0, height = 0\<rparr>,
      watchWidth = ''344'', watchHeight = ''444''\<rparr>"

text \<open>
  The second component of part_001 (lines 276-289 and 297-298): the watched fields start
  as the numbers 1080 and 1920, and the image size holds what \<^verbatim>\<open>img.onload\<close> copied.
\<close>

record editor_b =
  imagePreview_b :: "img option"
  generatedPoster_b :: bool
  titlePosition_b :: point
  subtitlePosition_b :: point
  qrCodePosition_b :: point
  imagePosition_b :: point
  imageSize_b :: "numstr dims"
  watchWidth_b :: numstr
  watchHeight_b :: numstr

definition useState_b :: editor_b where
  "useState_b =
     \<lparr>imagePreview_b = None, generatedPoster_b = False,
      titlePosition_b = \<lparr>pos_x = 20, pos_y = 20\<rparr>,
      subtitlePosition_b = \<lparr>pos_x = 20, pos_y = 80\<rparr>,
      qrCodePosition_b = \<lparr>pos_x = 20, pos_y = 140\<rparr>,
      imagePosition_b = \<lparr>pos_x = 0, pos_y = 0\<rparr>,
      imageSize_b = \<lparr>width = Numeric 0, height = Numeric 0\<rparr>,
      watchWidth_b = Numeric 1080, watchHeight_b = Numeric 1920\<rparr>"

text \<open>
  The react-resizable revision (PosterGenerator.tsx, lines 36-53) has no subtitle and no
  image position, and never decodes the image; its watched fields are strings with the
  default values \<^verbatim>\<open>"800"\<close> and \<^verbatim>\<open>"1000"\<close>.
\<close>

record editor_r =
  imagePreview_r :: "string option"
  generatedPoster_r :: bool
  titlePosition_r :: point
  qrCodePosition_r :: point
  imageSize_r :: "real dims"
  watchWidth_r :: string
  watchHeight_r :: string

definition useState_r :: editor_r where
  "useState_r =
     \<lparr>imagePreview_r = None, generatedPoster_r = False,
      titlePosition_r = \<lparr>pos_x = 0, pos_y = 0\<rparr>,
      qrCodePosition_r = \<lparr>pos_x = 0, pos_y = 0\<rparr>,
      imageSize_r = \<lparr>width = 800, height = 600\<rparr>,
      watchWidth_r = ''800'', watchHeight_r = ''1000''\<rparr>"

section \<open>Event handlers\<close>

text \<open>
  \<^verbatim>\<open>onStop={(e, data) => setTitlePosition({ x: data.x, y: data.y })}\<close> and its three
  siblings (part_001, lines 169, 194, 208, 222 and 437, 462, 477, 492): the position the
  drag component reports is stored as it is.
\<close>

fun onStop :: "layer \<Rightarrow> point \<Rightarrow> editor \<Rightarrow> editor" where
  "onStop Image data s = s\<lparr>imagePosition := \<lparr>pos_x = pos_x data, pos_y = pos_y data\<rparr>\<rparr>"
| "onStop Title data s = s\<lparr>titlePosition := \<lparr>pos_x = pos_x data, pos_y = pos_y data\<rparr>\<rparr>"
| "onStop Subtitle data s = s\<lparr>subtitlePosition := \<lparr>pos_x = pos_x data, pos_y = pos_y data\<rparr>\<rparr>"
| "onStop QRCode data s = s\<lparr>qrCodePosition := \<lparr>pos_x = pos_x data, pos_y = pos_y data\<rparr>\<rparr>"

fun onStop_b :: "layer \<Rightarrow> point \<Rightarrow> editor_b \<Rightarrow> editor_b" where
  "onStop_b Image data s = s\<lparr>imagePosition_b := \<lparr>pos_x = pos_x data, pos_y = pos_y data\<rparr>\<rparr>"
| "onStop_b Title data s = s\<lparr>titlePosition_b := \<lparr>pos_x = pos_x data, pos_y = pos_y data\<rparr>\<rparr>"
| "onStop_b Subtitle data s =
     s\<lparr>subtitlePosition_b := \<lparr>pos_x = pos_x data, pos_y = pos_y data\<rparr>\<rparr>"
| "onStop_b QRCode data s = s\<lparr>qrCodePosition_b := \<lparr>pos_x = pos_x data, pos_y = pos_y data\<rparr>\<rparr>"

text \<open>
  \<^verbatim>\<open>onResizeStop\<close>: \<^verbatim>\<open>imageSize.width + d.width\<close> and \<^verbatim>\<open>imageSize.height + d.height\<close>.
  In the first component (lines 173-178) the stored size is a pair of numbers. In the
  second (lines 441-446) a stored string takes the delta as text.
\<close>

definition onResizeStop :: "real dims \<Rightarrow> editor \<Rightarrow> editor" where
  "onResizeStop d s =
     s\<lparr>imageSize := \<lparr>width = width (imageSize s) + width d,
                      height = height (imageSize s) + height d\<rparr>\<rparr>"

definition onResizeStop_b :: "runtime \<Rightarrow> real dims \<Rightarrow> editor_b \<Rightarrow> editor_b" where
  "onResizeStop_b rt d s =
     s\<lparr>imageSize_b := \<lparr>width = plus_number rt (width (imageSize_b s)) (width d),
                        height = plus_number rt (height (imageSize_b s)) (height d)\<rparr>\<rparr>"

text \<open>
  \<^verbatim>\<open>onSubmit\<close>, called by \<^verbatim>\<open>handleSubmit\<close> with validated data. The file reader and the
  image decoder are taken to complete. \<^verbatim>\<open>data.image[0]\<close> throws when \<^verbatim>\<open>data.image\<close> is
  \<^verbatim>\<open>null\<close>, before any setter is called.

  First component (lines 58-70): without a first file only \<^verbatim>\<open>generatedPoster\<close> is set.
  Second component (lines 306-328): the geometry is computed from the watched values
  before the preview is stored. PosterGenerator.tsx (lines 58-66): the preview is the data
  URL. In the last two \<^verbatim>\<open>readAsDataURL(undefined)\<close> throws.
\<close>

definition onSubmit_a :: "image_file list option \<Rightarrow> editor \<Rightarrow> editor" where
  "onSubmit_a files s =
     (case files of
        None \<Rightarrow> s
      | Some [] \<Rightarrow> s\<lparr>generatedPoster := True\<rparr>
      | Some (f # fs) \<Rightarrow> s\<lparr>imagePreview := Some (file_image f), generatedPoster := True\<rparr>)"

definition onSubmit_b :: "runtime \<Rightarrow> image_file list option \<Rightarrow> editor_b \<Rightarrow> editor_b" where
  "onSubmit_b rt files s =
     (case files of
        None \<Rightarrow> s
      | Some [] \<Rightarrow> s
      | Some (f # fs) \<Rightarrow>
          s\<lparr>imageSize_b := img_onload_b rt (file_image f) (watchWidth_b s) (watchHeight_b s),
            imagePreview_b := Some (file_image f), generatedPoster_b := True\<rparr>)"

definition onSubmit_r :: "image_file list option \<Rightarrow> editor_r \<Rightarrow> editor_r" where
  "onSubmit_r files s =
     (case files of
        None \<Rightarrow> s
      | Some [] \<Rightarrow> s
      | Some (f # fs) \<Rightarrow>
          s\<lparr>imagePreview_r := Some (img_src (file_image f)), generatedPoster_r := True\<rparr>)"

text \<open>
  \<^verbatim>\<open>handleSubmit(onSubmit)\<close> runs the schema on the form values and calls \<^verbatim>\<open>onSubmit\<close>
  only when every entry passes: the title is not empty, the URL is one, the image entry
  passes (any value in the first component), and the width and height fields, whose
  values are the watched ones, pass their entry.
\<close>

definition valid_a :: "runtime \<Rightarrow> form \<Rightarrow> editor \<Rightarrow> bool" where
  "valid_a rt data s \<longleftrightarrow>
     form_title data \<noteq> [] \<and> isURL rt (form_url data)
     \<and> succeeds (width_a (StringToNumber rt) (JString (watchWidth s)))
     \<and> succeeds (height_a (StringToNumber rt) (JString (watchHeight s)))"

definition valid_b :: "runtime \<Rightarrow> form \<Rightarrow> editor_b \<Rightarrow> bool" where
  "valid_b rt data s \<longleftrightarrow>
     form_title data \<noteq> [] \<and> isURL rt (form_url data) \<and> image_schema (form_image data)
     \<and> succeeds (width_b (raw (watchWidth_b s)))
     \<and> succeeds (height_b (raw (watchHeight_b s)))"

definition valid_r :: "runtime \<Rightarrow> form \<Rightarrow> editor_r \<Rightarrow> bool" where
  "valid_r rt data s \<longleftrightarrow>
     form_title data \<noteq> [] \<and> isURL rt (form_url data) \<and> image_schema (form_image data)
     \<and> succeeds (width_r (JString (watchWidth_r s)))
     \<and> succeeds (height_r (JString (watchHeight_r s)))"

definition handleSubmit_a :: "runtime \<Rightarrow> form \<Rightarrow> editor \<Rightarrow> editor" where
  "handleSubmit_a rt data s = (if valid_a rt data s then onSubmit_a (form_image data) s else s)"

definition handleSubmit_b :: "runtime \<Rightarrow> form \<Rightarrow> editor_b \<Rightarrow> editor_b" where
  "handleSubmit_b rt data s =
     (if valid_b rt data s then onSubmit_b rt (form_image data) s else s)"

definition handleSubmit_r :: "runtime \<Rightarrow> form \<Rightarrow> editor_r \<Rightarrow> editor_r" where
  "handleSubmit_r rt data s = (if valid_r rt data s then onSubmit_r (form_image data) s else s)"

section \<open>Effects\<close>

text \<open>
  \<^verbatim>\<open>useEffect(effect, deps)\<close>: after a render \<open>r\<close> that follows a render \<open>prev\<close>, the
  effect runs when one of its dependencies differs. Its body reads the values of render
  \<open>r\<close> and its setters update the state \<open>s\<close>.
\<close>

definition useEffect :: "('s \<Rightarrow> 's \<Rightarrow> 's) \<Rightarrow> ('s \<Rightarrow> 'd) \<Rightarrow> 's \<Rightarrow> 's \<Rightarrow> 's \<Rightarrow> 's" where
  "useEffect effect deps prev r s = (if deps r = deps prev then s else effect r s)"

text \<open>First component, lines 98-115.\<close>

definition geometryEffect_a :: "runtime \<Rightarrow> editor \<Rightarrow> editor \<Rightarrow> editor" where
  "geometryEffect_a rt r s =
     (if generatedPoster r
      then (case imagePreview r of
              Some i \<Rightarrow>
                s\<lparr>imageSize := img_onload i (StringToNumber rt (watchWidth r))
                                   (StringToNumber rt (watchHeight r))\<rparr>
            | None \<Rightarrow> s)
      else s)"

definition effects_a :: "runtime \<Rightarrow> editor \<Rightarrow> editor \<Rightarrow> editor" where
  "effects_a rt prev r =
     useEffect (geometryEffect_a rt)
       (\<lambda>e. (generatedPoster e, imagePreview e, watchWidth e, watchHeight e)) prev r r"

text \<open>Second component, lines 356-363 and 365-382.\<close>

definition positionEffect_b :: "runtime \<Rightarrow> editor_b \<Rightarrow> editor_b \<Rightarrow> editor_b" where
  "positionEffect_b rt r s =
     (if generatedPoster_b r
      then s\<lparr>titlePosition_b := \<lparr>pos_x = 20, pos_y = 20\<rparr>,
             subtitlePosition_b := \<lparr>pos_x = 20, pos_y = 80\<rparr>,
             qrCodePosition_b := \<lparr>pos_x = 20, pos_y = ToNumber rt (watchHeight_b r) - 120\<rparr>,
             imagePosition_b := \<lparr>pos_x = 0, pos_y = 0\<rparr>\<rparr>
      else s)"

definition geometryEffect_b :: "runtime \<Rightarrow> editor_b \<Rightarrow> editor_b \<Rightarrow> editor_b" where
  "geometryEffect_b rt r s =
     (case imagePreview_b r of
        Some i \<Rightarrow> s\<lparr>imageSize_b := img_onload_b rt i (watchWidth_b r) (watchHeight_b r)\<rparr>
      | None \<Rightarrow> s)"

definition effects_b :: "runtime \<Rightarrow> editor_b \<Rightarrow> editor_b \<Rightarrow> editor_b" where
  "effects_b rt prev r =
     useEffect (geometryEffect_b rt)
       (\<lambda>e. (watchWidth_b e, watchHeight_b e, imagePreview_b e)) prev r
       (useEffect (positionEffect_b rt) (\<lambda>e. (generatedPoster_b e, watchHeight_b e)) prev r r)"

section \<open>Events\<close>

text \<open>
  One interaction: the handler updates the state, the component renders, and the effects
  whose dependencies changed run. \<open>WatchWidth\<close> and \<open>WatchHeight\<close> are edits of the
  two watched form fields, with the new text of the input.
\<close>

datatype event =
    Submit form
  | DragStop layer point
  | ResizeStop "real dims"
  | WatchWidth string
  | WatchHeight string

fun handle_a :: "runtime \<Rightarrow> event \<Rightarrow> editor \<Rightarrow> editor" where
  "handle_a rt (Submit data) s = handleSubmit_a rt data s"
| "handle_a rt (DragStop l data) s = onStop l data s"
| "handle_a rt (ResizeStop d) s = onResizeStop d s"
| "handle_a rt (WatchWidth t) s = s\<lparr>watchWidth := t\<rparr>"
| "handle_a rt (WatchHeight t) s = s\<lparr>watchHeight := t\<rparr>"

definition step_a :: "runtime \<Rightarrow> event \<Rightarrow> editor \<Rightarrow> editor" where
  "step_a rt ev s = effects_a rt s (handle_a rt ev s)"

fun handle_b :: "runtime \<Rightarrow> event \<Rightarrow> editor_b \<Rightarrow> editor_b" where
  "handle_b rt (Submit data) s = handleSubmit_b rt data s"
| "handle_b rt (DragStop l data) s = onStop_b l data s"
| "handle_b rt (ResizeStop d) s = onResizeStop_b rt d s"
| "handle_b rt (WatchWidth t) s = s\<lparr>watchWidth_b := Text t\<rparr>"
| "handle_b rt (WatchHeight t) s = s\<lparr>watchHeight_b := Text t\<rparr>"

definition step_b :: "runtime \<Rightarrow> event \<Rightarrow> editor_b \<Rightarrow> editor_b" where
  "step_b rt ev s = effects_b rt s (handle_b rt ev s)"

text \<open>
  The react-resizable revision has no effect (PosterGenerator.tsx, lines 142, 154, 168):
  the resize handler is bound to \<^verbatim>\<open>onResize\<close> and stores the reported size.
\<close>

definition onResize_r :: "real dims \<Rightarrow> editor_r \<Rightarrow> editor_r" where
  "onResize_r size' s = s\<lparr>imageSize_r := size'\<rparr>"

fun onStop_r :: "layer \<Rightarrow> point \<Rightarrow> editor_r \<Rightarrow> editor_r" where
  "onStop_r Title data s = s\<lparr>titlePosition_r := \<lparr>pos_x = pos_x data, pos_y = pos_y data\<rparr>\<rparr>"
| "onStop_r QRCode data s = s\<lparr>qrCodePosition_r := \<lparr>pos_x = pos_x data, pos_y = pos_y data\<rparr>\<rparr>"
| "onStop_r l data s = s"

fun handle_r :: "runtime \<Rightarrow> event \<Rightarrow> editor_r \<Rightarrow> editor_r" where
  "handle_r rt (Submit data) s = handleSubmit_r rt data s"
| "handle_r rt (DragStop l data) s = onStop_r l data s"
| "handle_r rt (ResizeStop size') s = onResize_r size' s"
| "handle_r rt (WatchWidth t) s = s\<lparr>watchWidth_r := t\<rparr>"
| "handle_r rt (WatchHeight t) s = s\<lparr>watchHeight_r := t\<rparr>"

section \<open>Rendering\<close>

text \<open>
  What the component returns inside the poster \<^verbatim>\<open><div ref={posterRef}>\<close>: a
  \<^verbatim>\<open>Draggable\<close> with its \<^verbatim>\<open>bounds\<close> and \<^verbatim>\<open>position\<close>, a \<^verbatim>\<open>Resizable\<close> with its size
  and limits, and the content of a layer. The values handed over are numbers or strings
  as the component holds them; the width and height of the poster element are the watched
  values, followed by \<^verbatim>\<open>px\<close>. The text of the title and subtitle and the value of the QR
  code are left out. The poster is rendered only under \<^verbatim>\<open>generatedPoster &&\<close>; otherwise
  \<^verbatim>\<open>posterRef.current\<close> stays \<^verbatim>\<open>null\<close>.
\<close>

record resizable_props =
  size_prop :: "numstr dims"
  minWidth :: "numstr option"
  minHeight :: "numstr option"
  maxWidth :: "numstr option"
  maxHeight :: "numstr option"

datatype jsx =
    Draggable string point jsx
  | Resizable resizable_props jsx
  | Content layer

record surface =
  style_width :: numstr
  style_height :: numstr
  children :: "jsx list"




text \<open>First component of part_001, lines 157-236.\<close>

definition render_a :: "editor \<Rightarrow> surface option" where
  "render_a s =
     (if generatedPoster s
      then Some \<lparr>style_width = Text (watchWidth s), style_height = Text (watchHeight s),
                 children =
                   (case imagePreview s of
                      Some i \<Rightarrow>
                        [Draggable ''parent'' (imagePosition s)
                           (Resizable \<lparr>size_prop = \<lparr>width = Numeric (width (imageSize s)),
                                                    height = Numeric (height (imageSize s))\<rparr>,
                                       minWidth = Some (Numeric 100),
                                       minHeight = Some (Numeric 100),
                                       maxWidth = Some (Text (watchWidth s)),
                                       maxHeight = Some (Text (watchHeight s))\<rparr>
                              (Content Image))]
                    | None \<Rightarrow> [])
                   @ [Draggable ''parent'' (titlePosition s) (Content Title),
                      Draggable ''parent'' (subtitlePosition s) (Content Subtitle),
                      Draggable ''parent'' (qrCodePosition s) (Content QRCode)]\<rparr>
      else None)"

text \<open>Second component of part_001, lines 426-506.\<close>

definition render_b :: "editor_b \<Rightarrow> surface option" where
  "render_b s =
     (if generatedPoster_b s
      then Some \<lparr>style_width = watchWidth_b s, style_height = watchHeight_b s,
                 children =
                   [Draggable ''parent'' (imagePosition_b s)
                      (Resizable \<lparr>size_prop = \<lparr>width = width (imageSize_b s),
                                               height = height (imageSize_b s)\<rparr>,
                                  minWidth = Some (Numeric 100),
                                  minHeight = Some (Numeric 100),
                                  maxWidth = Some (watchWidth_b s),
                                  maxHeight = Some (watchHeight_b s)\<rparr>
                         (Content Image)),
                    Draggable ''parent'' (titlePosition_b s) (Content Title),
                    Draggable ''parent'' (subtitlePosition_b s) (Content Subtitle),
                    Draggable ''parent'' (qrCodePosition_b s) (Content QRCode)]\<rparr>
      else None)"

text \<open>The react-resizable revision, PosterGenerator.tsx, lines 132-182.\<close>

definition render_r :: "editor_r \<Rightarrow> surface option" where
  "render_r s =
     (if generatedPoster_r s
      then Some \<lparr>style_width = Text (watchWidth_r s), style_height = Text (watchHeight_r s),
                 children =
                   [Resizable \<lparr>size_prop = \<lparr>width = Numeric (width (imageSize_r s)),
                                            height = Numeric (height (imageSize_r s))\<rparr>,
                               minWidth = None, minHeight = None,
                               maxWidth = None, maxHeight = None\<rparr>
                      (Content Image),
                    Draggable ''parent'' (titlePosition_r s) (Content Title),
                    Draggable ''parent'' (qrCodePosition_r s) (Content QRCode)]\<rparr>
      else None)"




section \<open>Export\<close>

text \<open>
  \<^verbatim>\<open>downloadPoster\<close> (the same in the three revisions: PosterGenerator.tsx, lines 68-92).
  The rasteriser \<^verbatim>\<open>toPng\<close> of html-to-image is a parameter: the promise it returns
  either resolves with a data URL or rejects. What the function does to the outside is a
  list: a toast, or the click on a link with its \<^verbatim>\<open>download\<close> and \<^verbatim>\<open>href\<close>.
\<close>

datatype 'a promise = Resolved 'a | Rejected string

record toast_args =
  toast_title :: string
  toast_description :: string
  toast_variant :: string

datatype action = Toast toast_args | LinkClick string string

definition downloadPoster :: "(surface \<Rightarrow> string promise) \<Rightarrow> surface option \<Rightarrow> action list" where
  "downloadPoster toPng current =
     (case current of
        None \<Rightarrow>
          [Toast \<lparr>toast_title = ''Error'',
                  toast_description = ''Could not generate poster. Please try again.'',
                  toast_variant = ''destructive''\<rparr>]
      | Some node \<Rightarrow>
          (case toPng node of
             Resolved dataUrl \<Rightarrow> [LinkClick ''magazine-poster.png'' dataUrl]
           | Rejected err \<Rightarrow>
               [Toast \<lparr>toast_title = ''Error'',
                       toast_description = ''Could not download poster. Please try again.'',
                       toast_variant = ''destructive''\<rparr>]))"

text \<open>
  A click on the download button: the handler calls no state setter, the effects see an
  unchanged render, and the outputs are those of \<^verbatim>\<open>downloadPoster\<close> on the current ref.
\<close>

definition clickDownload_a ::
  "runtime \<Rightarrow> (surface \<Rightarrow> string promise) \<Rightarrow> editor \<Rightarrow> editor \<times> action list" where
  "clickDownload_a rt toPng s = (effects_a rt s s, downloadPoster toPng (render_a s))"

definition clickDownload_b ::
  "runtime \<Rightarrow> (surface \<Rightarrow> string promise) \<Rightarrow> editor_b \<Rightarrow> editor_b \<times> action list" where
  "clickDownload_b rt toPng s = (effects_b rt s s, downloadPoster toPng (render_b s))"

definition clickDownload_r ::
  "(surface \<Rightarrow> string promise) \<Rightarrow> editor_r \<Rightarrow> editor_r \<times> action list" where
  "clickDownload_r toPng s = (s, downloadPoster toPng (render_r s))"

section \<open>Examples\<close>

text \<open>
  A runtime for the examples below. It agrees with JavaScript on the values the examples
  use: a string of decimal digits converts to its decimal value, a whole number converts
  to its decimal numeral, with a minus sign when negative, and the default URL of the
  form in part_001 (line 48) is a URL.
\<close>

definition example_runtime :: runtime where
  "example_runtime =
     \<lparr>StringToNumber = (\<lambda>t. real (Number_digits t)),
      NumberToString =
        (\<lambda>y. if y < 0 then CHR ''-'' # decimal (nat \<lfloor>- y\<rfloor>) else decimal (nat \<lfloor>y\<rfloor>)),
      isURL = (\<lambda>u. u = ''https://sharegpt-one.vercel.app/'')\<rparr>"

text \<open>A filled form with one PNG file of 1000 bytes, and the same with another picture.\<close>

definition example_form :: "img \<Rightarrow> form" where
  "example_form i =
     \<lparr>form_title = ''00'', form_url = ''https://sharegpt-one.vercel.app/'',
      form_image = Some [\<lparr>file_size = 1000, file_type = ''image/png'', file_image = i\<rparr>]\<rparr>"

section \<open>Effects and steps\<close>

lemma effects_a_same: "effects_a rt s s = s"
  by (simp add: effects_a_def useEffect_def)

lemma effects_b_same: "effects_b rt s s = s"
  by (simp add: effects_b_def useEffect_def)

text \<open>
  The effects write no dependency of an effect: the render that follows them runs none,
  so one pass over the effects is the state the component settles in.
\<close>

lemma geometryEffect_a_deps:
  "generatedPoster (geometryEffect_a rt r s) = generatedPoster s"
  "imagePreview (geometryEffect_a rt r s) = imagePreview s"
  "watchWidth (geometryEffect_a rt r s) = watchWidth s"
  "watchHeight (geometryEffect_a rt r s) = watchHeight s"
  by (simp_all add: geometryEffect_a_def split: option.splits)

lemma geometryEffect_b_deps:
  "generatedPoster_b (geometryEffect_b rt r s) = generatedPoster_b s"
  "imagePreview_b (geometryEffect_b rt r s) = imagePreview_b s"
  "watchWidth_b (geometryEffect_b rt r s) = watchWidth_b s"
  "watchHeight_b (geometryEffect_b rt r s) = watchHeight_b s"
  by (simp_all add: geometryEffect_b_def split: option.splits)

lemma positionEffect_b_deps:
  "generatedPoster_b (positionEffect_b rt r s) = generatedPoster_b s"
  "imagePreview_b (positionEffect_b rt r s) = imagePreview_b s"
  "watchWidth_b (positionEffect_b rt r s) = watchWidth_b s"
  "watchHeight_b (positionEffect_b rt r s) = watchHeight_b s"
  by (simp_all add: positionEffect_b_def)

lemma effects_a_deps:
  "generatedPoster (effects_a rt prev r) = generatedPoster r"
  "imagePreview (effects_a rt prev r) = imagePreview r"
  "watchWidth (effects_a rt prev r) = watchWidth r"
  "watchHeight (effects_a rt prev r) = watchHeight r"
  by (simp_all add: effects_a_def useEffect_def geometryEffect_a_deps)

lemma effects_b_deps:
  "generatedPoster_b (effects_b rt prev r) = generatedPoster_b r"
  "imagePreview_b (effects_b rt prev r) = imagePreview_b r"
  "watchWidth_b (effects_b rt prev r) = watchWidth_b r"
  "watchHeight_b (effects_b rt prev r) = watchHeight_b r"
  by (simp_all add: effects_b_def useEffect_def geometryEffect_b_deps positionEffect_b_deps)

lemma effects_a_settle: "effects_a rt r (effects_a rt prev r) = effects_a rt prev r"
  by (subst effects_a_def) (simp add: useEffect_def effects_a_deps)

lemma effects_b_settle: "effects_b rt r (effects_b rt prev r) = effects_b rt prev r"
  by (subst effects_b_def) (simp add: useEffect_def effects_b_deps)

text \<open>When the component mounts every effect runs once, and does nothing.\<close>

lemma mount_a: "geometryEffect_a rt useState_a useState_a = useState_a"
  by (simp add: geometryEffect_a_def useState_a_def)

lemma mount_b:
  "geometryEffect_b rt useState_b (positionEffect_b rt useState_b useState_b) = useState_b"
  by (simp add: geometryEffect_b_def positionEffect_b_def useState_b_def)

lemma step_a_DragStop: "step_a rt (DragStop l p) s = onStop l p s"
  by (cases l) (simp_all add: step_a_def effects_a_def useEffect_def)

lemma step_b_DragStop: "step_b rt (DragStop l p) s = onStop_b l p s"
  by (cases l) (simp_all add: step_b_def effects_b_def useEffect_def)

lemma step_a_ResizeStop: "step_a rt (ResizeStop d) s = onResizeStop d s"
  by (simp add: step_a_def effects_a_def useEffect_def onResizeStop_def)

lemma step_b_ResizeStop: "step_b rt (ResizeStop d) s = onResizeStop_b rt d s"
  by (simp add: step_b_def effects_b_def useEffect_def onResizeStop_b_def)

lemma step_a_WatchWidth:
  "step_a rt (WatchWidth t) s =
     (if t = watchWidth s then s
      else geometryEffect_a rt (s\<lparr>watchWidth := t\<rparr>) (s\<lparr>watchWidth := t\<rparr>))"
  by (simp add: step_a_def effects_a_def useEffect_def)

lemma step_a_WatchHeight:
  "step_a rt (WatchHeight t) s =
     (if t = watchHeight s then s
      else geometryEffect_a rt (s\<lparr>watchHeight := t\<rparr>) (s\<lparr>watchHeight := t\<rparr>))"
  by (simp add: step_a_def effects_a_def useEffect_def)

lemma step_b_WatchWidth:
  "step_b rt (WatchWidth t) s =
     (if Text t = watchWidth_b s then s
      else geometryEffect_b rt (s\<lparr>watchWidth_b := Text t\<rparr>) (s\<lparr>watchWidth_b := Text t\<rparr>))"
  by (simp add: step_b_def effects_b_def useEffect_def)

lemma step_b_WatchHeight:
  "step_b rt (WatchHeight t) s =
     (if Text t = watchHeight_b s then s
      else geometryEffect_b rt (s\<lparr>watchHeight_b := Text t\<rparr>)
             (positionEffect_b rt (s\<lparr>watchHeight_b := Text t\<rparr>)
                (s\<lparr>watchHeight_b := Text t\<rparr>)))"
  by (simp add: step_b_def effects_b_def useEffect_def)


text \<open>
  A later submission with unchanged height runs the geometry effect at most: the offsets
  the layers were dragged to stay.
\<close>

lemma step_b_Submit_again:
  assumes "valid_b rt data s" and "form_image data = Some (f # fs)" and "generatedPoster_b s"
  shows "step_b rt (Submit data) s =
     s\<lparr>imageSize_b := img_onload_b rt (file_image f) (watchWidth_b s) (watchHeight_b s),
       imagePreview_b := Some (file_image f)\<rparr>"
proof -
  have "s\<lparr>generatedPoster_b := True\<rparr> = s" using assms(3) by simp
  with assms show ?thesis
    by (simp add: step_b_def effects_b_def useEffect_def handleSubmit_b_def onSubmit_b_def
          geometryEffect_b_def positionEffect_b_def)
qed

text \<open>
  The schema of the second component passes a width and a height that are numbers: once
  a field is edited its value is a string, and the submission is refused.
\<close>

lemma valid_b_numeric:
  "valid_b rt data s \<Longrightarrow>
     (\<exists>w h. watchWidth_b s = Numeric w \<and> watchHeight_b s = Numeric h \<and> 1 \<le> w \<and> 1 \<le> h)"
  by (cases "watchWidth_b s"; cases "watchHeight_b s")
     (simp_all add: valid_b_def raw_def width_b_def height_b_def succeeds_def split: if_splits)

lemma submit_refused_after_edit:
  "step_b rt (Submit data) (step_b rt (WatchWidth t) s) = step_b rt (WatchWidth t) s"
  "step_b rt (Submit data) (step_b rt (WatchHeight t) s) = step_b rt (WatchHeight t) s"
proof -
  have w: "watchWidth_b (step_b rt (WatchWidth t) s) = Text t"
    by (simp add: step_b_def effects_b_deps)
  have h: "watchHeight_b (step_b rt (WatchHeight t) s) = Text t"
    by (simp add: step_b_def effects_b_deps)
  have nw: "\<not> valid_b rt data (step_b rt (WatchWidth t) s)"
    using valid_b_numeric [of rt data "step_b rt (WatchWidth t) s"] w by auto
  have nh: "\<not> valid_b rt data (step_b rt (WatchHeight t) s)"
    using valid_b_numeric [of rt data "step_b rt (WatchHeight t) s"] h by auto
  show "step_b rt (Submit data) (step_b rt (WatchWidth t) s) = step_b rt (WatchWidth t) s"
    using nw by (simp add: step_b_def [of rt "Submit data"] handleSubmit_b_def effects_b_same)
  show "step_b rt (Submit data) (step_b rt (WatchHeight t) s) = step_b rt (WatchHeight t) s"
    using nh by (simp add: step_b_def [of rt "Submit data"] handleSubmit_b_def effects_b_same)
qed

lemma imageSize_onStop: "imageSize (onStop l p s) = imageSize s"
  by (cases l) simp_all

lemma imageSize_onStop_b: "imageSize_b (onStop_b l p s) = imageSize_b s"
  by (cases l) simp_all

lemma imageSize_update_eq: "(s\<lparr>imageSize := a\<rparr> = s\<lparr>imageSize := b\<rparr>) = (a = b)"
proof
  assume "s\<lparr>imageSize := a\<rparr> = s\<lparr>imageSize := b\<rparr>"
  then have "imageSize (s\<lparr>imageSize := a\<rparr>) = imageSize (s\<lparr>imageSize := b\<rparr>)"
    by (rule arg_cong)
  then show "a = b" by simp
qed simp

lemma imageSize_b_update_eq: "(s\<lparr>imageSize_b := a\<rparr> = s\<lparr>imageSize_b := b\<rparr>) = (a = b)"
proof
  assume "s\<lparr>imageSize_b := a\<rparr> = s\<lparr>imageSize_b := b\<rparr>"
  then have "imageSize_b (s\<lparr>imageSize_b := a\<rparr>) = imageSize_b (s\<lparr>imageSize_b := b\<rparr>)"
    by (rule arg_cong)
  then show "a = b" by simp
qed simp

lemma dims_eq: "(a::'v dims) = b \<longleftrightarrow> width a = width b \<and> height a = height b"
  by (cases a, cases b) simp


text \<open>On numbers the geometry of the second component is that of the first.\<close>

lemma img_onload_b_numeric:
  "img_onload_b rt i (Numeric w) (Numeric h) =
     \<lparr>width = Numeric (width (img_onload i w h)), height = Numeric (height (img_onload i w h))\<rparr>"
  by (simp add: img_onload_b_def img_onload_def Let_def)

text \<open>
  After an edit of the width field the stored width is the text of the field, and a resize
  commit appends the delta to it.
\<close>

lemma resize_appends_text:
  assumes "width (imageSize_b s) = Text t"
  shows "width (imageSize_b (step_b rt (ResizeStop d) s)) = Text (t @ NumberToString rt (width d))"
  using assms by (simp add: step_b_ResizeStop onResizeStop_b_def)

section \<open>The width and height schema\<close>

lemma Number_digits_snoc: "Number_digits (t @ [c]) = 10 * Number_digits t + (of_char c - 48)"
  by (simp add: Number_digits_def)

lemma decimal_digits: "list_all digit (decimal n) \<and> decimal n \<noteq> []"
proof (induction n rule: decimal.induct)
  case (1 n)
  have d: "digit (char_of (48 + k))" if "k < 10" for k :: nat
    using that by (simp add: digit_def)
  show ?case
  proof (cases "n < 10")
    case True
    then show ?thesis using d [of n] by (subst decimal.simps, subst (2) decimal.simps) simp
  next
    case False
    then show ?thesis using 1 d [of "n mod 10"]
      by (subst decimal.simps, subst (2) decimal.simps) simp
  qed
qed

lemma Number_digits_decimal: "Number_digits (decimal n) = n"
proof (induction n rule: decimal.induct)
  case (1 n)
  show ?case
  proof (cases "n < 10")
    case True
    then show ?thesis by (subst decimal.simps) (simp add: Number_digits_def)
  next
    case False
    then have "Number_digits (decimal n) = 10 * Number_digits (decimal (n div 10)) + n mod 10"
      by (subst decimal.simps) (simp add: Number_digits_snoc)
    with 1 False show ?thesis by simp
  qed
qed

text \<open>
  The first component of part_001 checks the length of the string where its message
  speaks of a positive number: every non-empty string passes. The second component
  passes the numbers from 1 on, whole or not.
\<close>

lemma width_height_a:
  "width_a Number (JString t) =
     (if t = [] then Inl (too_small ''Width must be a positive number'') else Inr (Number t))
   \<and> height_a Number (JString t) =
     (if t = [] then Inl (too_small ''Height must be a positive number'') else Inr (Number t))"
  by (cases t) (simp_all add: width_a_def height_a_def)

lemma width_height_b:
  "(width_b v = Inr n \<longleftrightarrow> v = JNumber n \<and> 1 \<le> n)
   \<and> (height_b v = Inr n \<longleftrightarrow> v = JNumber n \<and> 1 \<le> n)"
  by (cases v) (auto simp add: width_b_def height_b_def)

section \<open>The examples\<close>

lemma example_form_valid_b: "valid_b example_runtime (example_form i) useState_b"
  by (simp add: valid_b_def example_runtime_def example_form_def image_schema_def
        MAX_FILE_SIZE_def ACCEPTED_IMAGE_TYPES_def raw_def width_b_def height_b_def
        succeeds_def useState_b_def)

lemma example_form_valid_r: "valid_r example_runtime (example_form i) useState_r"
  by (simp add: valid_r_def example_runtime_def example_form_def image_schema_def
        MAX_FILE_SIZE_def ACCEPTED_IMAGE_TYPES_def width_r_def height_r_def matches_digits_def
        digit_def succeeds_def useState_r_def)

lemma example_form_valid_a: "valid_a example_runtime (example_form i) useState_a"
  by (simp add: valid_a_def example_runtime_def example_form_def width_a_def height_a_def
        succeeds_def useState_a_def)

lemma example_numbers:
  "StringToNumber example_runtime ''344'' = 344"
  "StringToNumber example_runtime ''444'' = 444"
  "StringToNumber example_runtime ''800'' = 800"
  "StringToNumber example_runtime ''10'' = 10"
  by (simp_all add: example_runtime_def Number_digits_def)

text \<open>The first submission of the example form after mount, in the three components.\<close>

lemma example_submit_a:
  "step_a example_runtime (Submit (example_form i)) useState_a =
     useState_a\<lparr>imageSize := img_onload i 344 444, imagePreview := Some i,
       generatedPoster := True\<rparr>"
  using example_form_valid_a [of i]
  by (simp add: step_a_def effects_a_def useEffect_def handleSubmit_a_def onSubmit_a_def
        geometryEffect_a_def example_form_def useState_a_def example_numbers)

lemma example_submit_b:
  "step_b example_runtime (Submit (example_form i)) useState_b =
     useState_b\<lparr>imageSize_b := \<lparr>width = Numeric (width (img_onload i 1080 1920)),
                                height = Numeric (height (img_onload i 1080 1920))\<rparr>,
       imagePreview_b := Some i, generatedPoster_b := True,
       qrCodePosition_b := \<lparr>pos_x = 20, pos_y = 1800\<rparr>\<rparr>"
  using example_form_valid_b [of i]
  by (simp add: step_b_def effects_b_def useEffect_def handleSubmit_b_def onSubmit_b_def
        geometryEffect_b_def positionEffect_b_def example_form_def useState_b_def
        img_onload_b_numeric)

lemma example_submit_r:
  "handle_r example_runtime (Submit (example_form i)) useState_r =
     useState_r\<lparr>imagePreview_r := Some (img_src i), generatedPoster_r := True\<rparr>"
  using example_form_valid_r [of i]
  by (simp add: handleSubmit_r_def onSubmit_r_def example_form_def)

section \<open>The successful export\<close>

text \<open>
  When the rasteriser resolves, the one thing the export does is the click on a link
  named \<^verbatim>\<open>magazine-poster.png\<close> whose target is the data URL that \<^verbatim>\<open>toPng\<close> produced for
  the poster element, styled with the watched width and height. The pixels behind that
  URL are the rasteriser's.
\<close>

lemma download_success:
  assumes "render_b s = Some node" and "toPng node = Resolved dataUrl"
  shows "clickDownload_b rt toPng s = (s, [LinkClick ''magazine-poster.png'' dataUrl])"
    and "style_width node = watchWidth_b s" and "style_height node = watchHeight_b s"
  using assms
  by (auto simp add: clickDownload_b_def downloadPoster_def effects_b_same render_b_def
        split: if_splits)

section \<open>Properties of the image geometry\<close>

text \<open>
  C1. For positive intrinsic and canvas sizes the computed size is the canvas width with
  the height \<open>width / (intrinsicWidth / intrinsicHeight)\<close>, unless that height exceeds the
  canvas height, when it is the canvas height with the width
  \<open>height * (intrinsicWidth / intrinsicHeight)\<close>. The result fits the canvas in both
  directions and has the aspect ratio of the image. A 2000 x 1000 image gives 800 x 400 on
  an 800 x 1000 canvas and 200 x 100 on a 400 x 100 canvas.
\<close>

theorem img_onload_contain_fit:
  assumes "0 < iw" and "0 < ih" and "0 < cw" and "0 < ch"
  shows "(let i = \<lparr>img_src = u, img_width = iw, img_height = ih\<rparr>;
              r = img_onload i cw ch
          in r = (if cw / (iw / ih) > ch
                  then \<lparr>width = ch * (iw / ih), height = ch\<rparr>
                  else \<lparr>width = cw, height = cw / (iw / ih)\<rparr>)
             \<and> width r \<le> cw \<and> height r \<le> ch
             \<and> width r / height r = iw / ih)
         \<and> img_onload \<lparr>img_src = u, img_width = 2000, img_height = 1000\<rparr> 800 1000
             = \<lparr>width = 800, height = 400\<rparr>
         \<and> img_onload \<lparr>img_src = u, img_width = 2000, img_height = 1000\<rparr> 400 100
             = \<lparr>width = 200, height = 100\<rparr>"
proof -
  let ?a = "iw / ih"
  have a: "0 < ?a" using assms by simp
  have fit: "ch * ?a \<le> cw" if "cw / ?a > ch"
  proof -
    from that have "ch < cw / ?a" by simp
    then have "ch * ?a < cw" by (rule iffD1 [OF pos_less_divide_eq [OF a]])
    then show ?thesis by (rule less_imp_le)
  qed
  have ratio1: "ch * ?a / ch = ?a" using assms by simp
  have ratio2: "cw / (cw / ?a) = ?a" using assms by simp
  show ?thesis
    using fit ratio1 ratio2 by (simp add: img_onload_def Let_def)
qed

theorem img_onload_contain_fit_witness:
  "(0::real) < 3 \<and> (0::real) < 2 \<and> (0::real) < 300 \<and> (0::real) < 100
   \<and> img_onload \<lparr>img_src = ''data:image/png;base64,AA'', img_width = 3, img_height = 2\<rparr> 300 100
       = \<lparr>width = 150, height = 100\<rparr>
   \<and> img_onload \<lparr>img_src = ''data:image/png;base64,AA'', img_width = 3, img_height = 2\<rparr> 300 400
       = \<lparr>width = 300, height = 200\<rparr>"
  using img_onload_contain_fit [of 3 2 300 100 "''data:image/png;base64,AA''"]
        img_onload_contain_fit [of 3 2 300 400 "''data:image/png;base64,AA''"]
  by (simp add: Let_def)

section \<open>Recomputing the image size\<close>

text \<open>
  C3 (as the code has it). The component keeps no record of a manual resize. With an
  image present, an edit of the canvas width or height after any resize commit sets the
  size to the geometry of the new canvas, and so does a submission that passes validation
  in the second component; in the first component a submission does so when the image
  source differs, and changes nothing when it is the image already shown. When none of
  canvas width, canvas height and image source changes between two renders, the geometry
  effect leaves the size alone.
\<close>

theorem geometry_recomputed_after_resize:
  assumes "imagePreview_b sb = Some i" and "imagePreview sa = Some i"
  shows "(Text t \<noteq> watchWidth_b sb \<longrightarrow>
            imageSize_b (step_b rt (WatchWidth t) (step_b rt (ResizeStop d) sb))
              = img_onload_b rt i (Text t) (watchHeight_b sb))
       \<and> (Text t \<noteq> watchHeight_b sb \<longrightarrow>
            imageSize_b (step_b rt (WatchHeight t) (step_b rt (ResizeStop d) sb))
              = img_onload_b rt i (watchWidth_b sb) (Text t))
       \<and> (valid_b rt data sb \<and> form_image data = Some (f # fs) \<longrightarrow>
            imageSize_b (step_b rt (Submit data) (step_b rt (ResizeStop d) sb))
              = img_onload_b rt (file_image f) (watchWidth_b sb) (watchHeight_b sb))
       \<and> (watchWidth_b r = watchWidth_b prev \<and> watchHeight_b r = watchHeight_b prev
            \<and> imagePreview_b r = imagePreview_b prev \<longrightarrow>
            imageSize_b (effects_b rt prev r) = imageSize_b r)
       \<and> (generatedPoster sa \<longrightarrow>
            (t \<noteq> watchWidth sa \<longrightarrow>
               imageSize (step_a rt (WatchWidth t) (step_a rt (ResizeStop d) sa))
                 = img_onload i (StringToNumber rt t) (StringToNumber rt (watchHeight sa)))
          \<and> (t \<noteq> watchHeight sa \<longrightarrow>
               imageSize (step_a rt (WatchHeight t) (step_a rt (ResizeStop d) sa))
                 = img_onload i (StringToNumber rt (watchWidth sa)) (StringToNumber rt t))
          \<and> (valid_a rt data sa \<and> form_image data = Some (f # fs) \<and> file_image f \<noteq> i \<longrightarrow>
               imageSize (step_a rt (Submit data) (step_a rt (ResizeStop d) sa))
                 = img_onload (file_image f) (StringToNumber rt (watchWidth sa))
                     (StringToNumber rt (watchHeight sa)))
          \<and> (form_image data = Some (f # fs) \<and> file_image f = i \<longrightarrow>
               step_a rt (Submit data) (step_a rt (ResizeStop d) sa)
                 = step_a rt (ResizeStop d) sa))
       \<and> (generatedPoster ra = generatedPoster preva \<and> watchWidth ra = watchWidth preva
            \<and> watchHeight ra = watchHeight preva \<and> imagePreview ra = imagePreview preva \<longrightarrow>
            imageSize (effects_a rt preva ra) = imageSize ra)"
proof -
  let ?sb = "onResizeStop_b rt d sb" and ?sa = "onResizeStop d sa"
  have b: "imagePreview_b ?sb = Some i" "watchWidth_b ?sb = watchWidth_b sb"
    "watchHeight_b ?sb = watchHeight_b sb" "generatedPoster_b ?sb = generatedPoster_b sb"
    using assms by (simp_all add: onResizeStop_b_def)
  have a: "imagePreview ?sa = Some i" "watchWidth ?sa = watchWidth sa"
    "watchHeight ?sa = watchHeight sa" "generatedPoster ?sa = generatedPoster sa"
    using assms by (simp_all add: onResizeStop_def)
  have vb: "valid_b rt data ?sb = valid_b rt data sb" by (simp add: valid_b_def b)
  have va: "valid_a rt data ?sa = valid_a rt data sa" by (simp add: valid_a_def a)
  have subb: "valid_b rt data sb \<and> form_image data = Some (f # fs) \<longrightarrow>
            imageSize_b (step_b rt (Submit data) ?sb)
              = img_onload_b rt (file_image f) (watchWidth_b sb) (watchHeight_b sb)"
    using b vb
    by (simp add: step_b_def effects_b_def useEffect_def handleSubmit_b_def onSubmit_b_def
          geometryEffect_b_def positionEffect_b_def)
  have eb: "watchWidth_b r = watchWidth_b prev \<and> watchHeight_b r = watchHeight_b prev
            \<and> imagePreview_b r = imagePreview_b prev \<longrightarrow>
            imageSize_b (effects_b rt prev r) = imageSize_b r"
    by (simp add: effects_b_def useEffect_def positionEffect_b_def)
  have ea: "generatedPoster ra = generatedPoster preva \<and> watchWidth ra = watchWidth preva
            \<and> watchHeight ra = watchHeight preva \<and> imagePreview ra = imagePreview preva \<longrightarrow>
            imageSize (effects_a rt preva ra) = imageSize ra"
    by (simp add: effects_a_def useEffect_def)
  have suba: "generatedPoster sa \<longrightarrow>
     (valid_a rt data sa \<and> form_image data = Some (f # fs) \<and> file_image f \<noteq> i \<longrightarrow>
        imageSize (step_a rt (Submit data) ?sa)
          = img_onload (file_image f) (StringToNumber rt (watchWidth sa))
              (StringToNumber rt (watchHeight sa)))
     \<and> (form_image data = Some (f # fs) \<and> file_image f = i \<longrightarrow>
        step_a rt (Submit data) ?sa = ?sa)"
    using a va
    by (simp add: step_a_def effects_a_def useEffect_def handleSubmit_a_def onSubmit_a_def
          geometryEffect_a_def)
  have wb: "(Text t \<noteq> watchWidth_b sb \<longrightarrow>
            imageSize_b (step_b rt (WatchWidth t) ?sb)
              = img_onload_b rt i (Text t) (watchHeight_b sb))
       \<and> (Text t \<noteq> watchHeight_b sb \<longrightarrow>
            imageSize_b (step_b rt (WatchHeight t) ?sb)
              = img_onload_b rt i (watchWidth_b sb) (Text t))"
    using b by (simp add: step_b_WatchWidth step_b_WatchHeight geometryEffect_b_def
        positionEffect_b_def)
  have wa: "generatedPoster sa \<longrightarrow>
            (t \<noteq> watchWidth sa \<longrightarrow>
               imageSize (step_a rt (WatchWidth t) ?sa)
                 = img_onload i (StringToNumber rt t) (StringToNumber rt (watchHeight sa)))
          \<and> (t \<noteq> watchHeight sa \<longrightarrow>
               imageSize (step_a rt (WatchHeight t) ?sa)
                 = img_onload i (StringToNumber rt (watchWidth sa)) (StringToNumber rt t))"
    using a by (simp add: step_a_WatchWidth step_a_WatchHeight geometryEffect_a_def)
  show ?thesis
    unfolding step_b_ResizeStop step_a_ResizeStop
    using wb subb eb wa suba ea by blast
qed

theorem manual_resize_overwritten:
  "imageSize_b (step_b example_runtime (ResizeStop \<lparr>width = -80, height = -40\<rparr>)
      (step_b example_runtime
         (Submit (example_form \<lparr>img_src = ''data:,'', img_width = 2000, img_height = 1000\<rparr>))
         useState_b))
     = \<lparr>width = Numeric 1000, height = Numeric 500\<rparr>
   \<and> imageSize_b (step_b example_runtime (WatchWidth ''800'')
        (step_b example_runtime (ResizeStop \<lparr>width = -80, height = -40\<rparr>)
           (step_b example_runtime
              (Submit (example_form \<lparr>img_src = ''data:,'', img_width = 2000, img_height = 1000\<rparr>))
              useState_b)))
     = \<lparr>width = Text ''800'', height = Numeric 400\<rparr>"
proof -
  let ?I = "\<lparr>img_src = ''data:,'', img_width = 2000, img_height = 1000\<rparr>"
  have s1: "step_b example_runtime (Submit (example_form ?I)) useState_b =
     useState_b\<lparr>imageSize_b := \<lparr>width = Numeric 1080, height = Numeric 540\<rparr>,
       imagePreview_b := Some ?I, generatedPoster_b := True,
       qrCodePosition_b := \<lparr>pos_x = 20, pos_y = 1800\<rparr>\<rparr>"
    by (subst example_submit_b) (simp add: img_onload_def useState_b_def)
  have n: "StringToNumber example_runtime ''800'' = 800"
    by (simp add: example_runtime_def Number_digits_def)
  show ?thesis
    unfolding s1
    by (simp add: step_b_ResizeStop step_b_WatchWidth onResizeStop_b_def geometryEffect_b_def
          img_onload_b_def useState_b_def n Let_def)
qed

theorem geometry_recomputed_after_resize_witness:
  "imagePreview_b (step_b example_runtime
      (Submit (example_form \<lparr>img_src = ''data:,'', img_width = 2000, img_height = 1000\<rparr>))
      useState_b)
     = Some \<lparr>img_src = ''data:,'', img_width = 2000, img_height = 1000\<rparr>
   \<and> imagePreview (step_a example_runtime
      (Submit (example_form \<lparr>img_src = ''data:,'', img_width = 2000, img_height = 1000\<rparr>))
      useState_a)
     = Some \<lparr>img_src = ''data:,'', img_width = 2000, img_height = 1000\<rparr>
   \<and> generatedPoster (step_a example_runtime
      (Submit (example_form \<lparr>img_src = ''data:,'', img_width = 2000, img_height = 1000\<rparr>))
      useState_a)
   \<and> Text ''800'' \<noteq> watchWidth_b (step_b example_runtime
      (Submit (example_form \<lparr>img_src = ''data:,'', img_width = 2000, img_height = 1000\<rparr>))
      useState_b)
   \<and> Text ''800'' \<noteq> watchHeight_b (step_b example_runtime
      (Submit (example_form \<lparr>img_src = ''data:,'', img_width = 2000, img_height = 1000\<rparr>))
      useState_b)
   \<and> ''800'' \<noteq> watchWidth (step_a example_runtime
      (Submit (example_form \<lparr>img_src = ''data:,'', img_width = 2000, img_height = 1000\<rparr>))
      useState_a)
   \<and> ''800'' \<noteq> watchHeight (step_a example_runtime
      (Submit (example_form \<lparr>img_src = ''data:,'', img_width = 2000, img_height = 1000\<rparr>))
      useState_a)
   \<and> valid_a example_runtime
        (example_form \<lparr>img_src = ''data:;'', img_width = 300, img_height = 300\<rparr>)
        (step_a example_runtime
          (Submit (example_form \<lparr>img_src = ''data:,'', img_width = 2000, img_height = 1000\<rparr>))
          useState_a)
   \<and> valid_b example_runtime
        (example_form \<lparr>img_src = ''data:;'', img_width = 300, img_height = 300\<rparr>)
        (step_b example_runtime
          (Submit (example_form \<lparr>img_src = ''data:,'', img_width = 2000, img_height = 1000\<rparr>))
          useState_b)
   \<and> \<lparr>img_src = ''data:;'', img_width = 300, img_height = 300\<rparr>
       \<noteq> \<lparr>img_src = ''data:,'', img_width = 2000, img_height = 1000\<rparr>
   \<and> imageSize_b (step_b example_runtime (WatchWidth ''800'')
        (step_b example_runtime (ResizeStop \<lparr>width = -80, height = -40\<rparr>)
           (step_b example_runtime
              (Submit (example_form \<lparr>img_src = ''data:,'', img_width = 2000, img_height = 1000\<rparr>))
              useState_b)))
       = \<lparr>width = Text ''800'', height = Numeric 400\<rparr>
   \<and> imageSize_b (step_b example_runtime (WatchHeight ''800'')
        (step_b example_runtime (ResizeStop \<lparr>width = -80, height = -40\<rparr>)
           (step_b example_runtime
              (Submit (example_form \<lparr>img_src = ''data:,'', img_width = 2000, img_height = 1000\<rparr>))
              useState_b)))
       = \<lparr>width = Numeric 1080, height = Numeric 540\<rparr>
   \<and> imageSize_b (step_b example_runtime
        (Submit (example_form \<lparr>img_src = ''data:;'', img_width = 300, img_height = 300\<rparr>))
        (step_b example_runtime (ResizeStop \<lparr>width = -80, height = -40\<rparr>)
           (step_b example_runtime
              (Submit (example_form \<lparr>img_src = ''data:,'', img_width = 2000, img_height = 1000\<rparr>))
              useState_b)))
       = \<lparr>width = Numeric 1080, height = Numeric 1080\<rparr>
   \<and> imageSize (step_a example_runtime (WatchWidth ''800'')
        (step_a example_runtime (ResizeStop \<lparr>width = -80, height = -40\<rparr>)
           (step_a example_runtime
              (Submit (example_form \<lparr>img_src = ''data:,'', img_width = 2000, img_height = 1000\<rparr>))
              useState_a)))
       = \<lparr>width = 800, height = 400\<rparr>
   \<and> imageSize (step_a example_runtime
        (Submit (example_form \<lparr>img_src = ''data:;'', img_width = 300, img_height = 300\<rparr>))
        (step_a example_runtime (ResizeStop \<lparr>width = -80, height = -40\<rparr>)
           (step_a example_runtime
              (Submit (example_form \<lparr>img_src = ''data:,'', img_width = 2000, img_height = 1000\<rparr>))
              useState_a)))
       = \<lparr>width = 344, height = 344\<rparr>
   \<and> step_a example_runtime
        (Submit (example_form \<lparr>img_src = ''data:,'', img_width = 2000, img_height = 1000\<rparr>))
        (step_a example_runtime (ResizeStop \<lparr>width = -80, height = -40\<rparr>)
           (step_a example_runtime
              (Submit (example_form \<lparr>img_src = ''data:,'', img_width = 2000, img_height = 1000\<rparr>))
              useState_a))
       = step_a example_runtime (ResizeStop \<lparr>width = -80, height = -40\<rparr>)
           (step_a example_runtime
              (Submit (example_form \<lparr>img_src = ''data:,'', img_width = 2000, img_height = 1000\<rparr>))
              useState_a)
   \<and> watchWidth_b (onStop_b Title \<lparr>pos_x = 5, pos_y = 7\<rparr>
          (step_b example_runtime
             (Submit (example_form \<lparr>img_src = ''data:,'', img_width = 2000, img_height = 1000\<rparr>))
             useState_b))
       = watchWidth_b (step_b example_runtime
             (Submit (example_form \<lparr>img_src = ''data:,'', img_width = 2000, img_height = 1000\<rparr>))
             useState_b)
   \<and> imageSize_b (effects_b example_runtime
        (step_b example_runtime
           (Submit (example_form \<lparr>img_src = ''data:,'', img_width = 2000, img_height = 1000\<rparr>))
           useState_b)
        (onStop_b Title \<lparr>pos_x = 5, pos_y = 7\<rparr>
          (step_b example_runtime
             (Submit (example_form \<lparr>img_src = ''data:,'', img_width = 2000, img_height = 1000\<rparr>))
             useState_b)))
       = \<lparr>width = Numeric 1080, height = Numeric 540\<rparr>
   \<and> imageSize (effects_a example_runtime
        (step_a example_runtime
           (Submit (example_form \<lparr>img_src = ''data:,'', img_width = 2000, img_height = 1000\<rparr>))
           useState_a)
        (onStop Title \<lparr>pos_x = 5, pos_y = 7\<rparr>
          (step_a example_runtime
             (Submit (example_form \<lparr>img_src = ''data:,'', img_width = 2000, img_height = 1000\<rparr>))
             useState_a)))
       = \<lparr>width = 344, height = 172\<rparr>"
proof -
  let ?I = "\<lparr>img_src = ''data:,'', img_width = 2000, img_height = 1000\<rparr>"
  let ?J = "\<lparr>img_src = ''data:;'', img_width = 300, img_height = 300\<rparr>"
  let ?rt = example_runtime
  have n: "StringToNumber ?rt ''800'' = 800" "StringToNumber ?rt ''344'' = 344"
    "StringToNumber ?rt ''444'' = 444"
    by (simp_all add: example_runtime_def Number_digits_def)
  have sb: "step_b ?rt (Submit (example_form ?I)) useState_b =
     useState_b\<lparr>imageSize_b := \<lparr>width = Numeric 1080, height = Numeric 540\<rparr>,
       imagePreview_b := Some ?I, generatedPoster_b := True,
       qrCodePosition_b := \<lparr>pos_x = 20, pos_y = 1800\<rparr>\<rparr>"
    by (subst example_submit_b) (simp add: img_onload_def useState_b_def)
  have sa: "step_a ?rt (Submit (example_form ?I)) useState_a =
     useState_a\<lparr>imageSize := \<lparr>width = 344, height = 172\<rparr>,
       imagePreview := Some ?I, generatedPoster := True\<rparr>"
    by (subst example_submit_a) (simp add: img_onload_def useState_a_def)
  have va: "valid_a ?rt (example_form ?J) (step_a ?rt (Submit (example_form ?I)) useState_a)"
    using example_form_valid_a [of ?J] unfolding sa by (simp add: valid_a_def useState_a_def)
  have vb: "valid_b ?rt (example_form ?J) (step_b ?rt (Submit (example_form ?I)) useState_b)"
    using example_form_valid_b [of ?J] unfolding sb by (simp add: valid_b_def useState_b_def)
  note t = geometry_recomputed_after_resize
    [where rt = ?rt and sb = "step_b ?rt (Submit (example_form ?I)) useState_b"
       and sa = "step_a ?rt (Submit (example_form ?I)) useState_a" and i = ?I
       and t = "''800''" and d = "\<lparr>width = -80, height = -40\<rparr>"
       and data = "example_form ?J"
       and f = "\<lparr>file_size = 1000, file_type = ''image/png'', file_image = ?J\<rparr>"
       and fs = "[]"
       and prev = "step_b ?rt (Submit (example_form ?I)) useState_b"
       and r = "onStop_b Title \<lparr>pos_x = 5, pos_y = 7\<rparr>
                  (step_b ?rt (Submit (example_form ?I)) useState_b)"
       and preva = "step_a ?rt (Submit (example_form ?I)) useState_a"
       and ra = "onStop Title \<lparr>pos_x = 5, pos_y = 7\<rparr>
                  (step_a ?rt (Submit (example_form ?I)) useState_a)"]
  have h: "imagePreview_b (step_b ?rt (Submit (example_form ?I)) useState_b) = Some ?I"
    "imagePreview (step_a ?rt (Submit (example_form ?I)) useState_a) = Some ?I"
    by (simp_all add: sa sb)
  note u = geometry_recomputed_after_resize
    [where rt = ?rt and sb = "step_b ?rt (Submit (example_form ?I)) useState_b"
       and sa = "step_a ?rt (Submit (example_form ?I)) useState_a" and i = ?I
       and d = "\<lparr>width = -80, height = -40\<rparr>" and data = "example_form ?I"
       and f = "\<lparr>file_size = 1000, file_type = ''image/png'', file_image = ?I\<rparr>"
       and fs = "[]"]
  note t' = t [OF h, unfolded sa sb] and va' = va [unfolded sa] and vb' = vb [unfolded sb]
    and u' = u [OF h, THEN conjunct2, THEN conjunct2, THEN conjunct2, THEN conjunct2,
      THEN conjunct1, unfolded sa sb]
  show ?thesis
    unfolding sa sb
    using t' va' vb' u'
    by (simp add: example_form_def useState_a_def useState_b_def img_onload_b_def
          img_onload_def n Let_def)
qed

section \<open>Layers after a submission\<close>




section \<open>Resize commits\<close>




section \<open>Failing exports\<close>

text \<open>
  C6. An export with no poster rendered (the ref is \<^verbatim>\<open>null\<close>) emits exactly one
  notification and no download; an export whose rasterisation rejects is caught and emits
  exactly one notification and no download. Either way the editor state is the one before
  the click, so the export can be tried again. This holds in the three components.
\<close>

theorem export_failures:
  "downloadPoster toPng None =
     [Toast \<lparr>toast_title = ''Error'',
             toast_description = ''Could not generate poster. Please try again.'',
             toast_variant = ''destructive''\<rparr>]
   \<and> (toPng node = Rejected err \<longrightarrow>
        downloadPoster toPng (Some node) =
          [Toast \<lparr>toast_title = ''Error'',
                  toast_description = ''Could not download poster. Please try again.'',
                  toast_variant = ''destructive''\<rparr>])
   \<and> (\<not> generatedPoster_r sr \<longrightarrow>
        clickDownload_r toPng sr =
          (sr, [Toast \<lparr>toast_title = ''Error'',
                  toast_description = ''Could not generate poster. Please try again.'',
                  toast_variant = ''destructive''\<rparr>]))
   \<and> (\<not> generatedPoster sa \<longrightarrow>
        clickDownload_a rt toPng sa =
          (sa, [Toast \<lparr>toast_title = ''Error'',
                  toast_description = ''Could not generate poster. Please try again.'',
                  toast_variant = ''destructive''\<rparr>]))
   \<and> (\<not> generatedPoster_b sb \<longrightarrow>
        clickDownload_b rt toPng sb =
          (sb, [Toast \<lparr>toast_title = ''Error'',
                  toast_description = ''Could not generate poster. Please try again.'',
                  toast_variant = ''destructive''\<rparr>]))
   \<and> (render_r sr = Some nr \<and> toPng nr = Rejected err \<longrightarrow>
        clickDownload_r toPng sr =
          (sr, [Toast \<lparr>toast_title = ''Error'',
                  toast_description = ''Could not download poster. Please try again.'',
                  toast_variant = ''destructive''\<rparr>]))
   \<and> (render_a sa = Some na \<and> toPng na = Rejected err \<longrightarrow>
        clickDownload_a rt toPng sa =
          (sa, [Toast \<lparr>toast_title = ''Error'',
                  toast_description = ''Could not download poster. Please try again.'',
                  toast_variant = ''destructive''\<rparr>]))
   \<and> (render_b sb = Some nb \<and> toPng nb = Rejected err \<longrightarrow>
        clickDownload_b rt toPng sb =
          (sb, [Toast \<lparr>toast_title = ''Error'',
                  toast_description = ''Could not download poster. Please try again.'',
                  toast_variant = ''destructive''\<rparr>]))"
  by (simp add: downloadPoster_def clickDownload_r_def clickDownload_a_def clickDownload_b_def
        effects_a_same effects_b_same render_r_def render_a_def render_b_def)

theorem export_failures_witness:
  "\<not> generatedPoster_r useState_r
   \<and> clickDownload_r (\<lambda>n. Rejected ''SecurityError'') useState_r =
       (useState_r, [Toast \<lparr>toast_title = ''Error'',
                  toast_description = ''Could not generate poster. Please try again.'',
                  toast_variant = ''destructive''\<rparr>])
   \<and> \<not> generatedPoster useState_a
   \<and> clickDownload_a example_runtime (\<lambda>n. Rejected ''SecurityError'') useState_a =
       (useState_a, [Toast \<lparr>toast_title = ''Error'',
                  toast_description = ''Could not generate poster. Please try again.'',
                  toast_variant = ''destructive''\<rparr>])
   \<and> \<not> generatedPoster_b useState_b
   \<and> clickDownload_b example_runtime (\<lambda>n. Rejected ''SecurityError'') useState_b =
       (useState_b, [Toast \<lparr>toast_title = ''Error'',
                  toast_description = ''Could not generate poster. Please try again.'',
                  toast_variant = ''destructive''\<rparr>])
   \<and> render_r (handle_r example_runtime
        (Submit (example_form \<lparr>img_src = ''data:,'', img_width = 2000, img_height = 1000\<rparr>))
        useState_r)
       = Some \<lparr>style_width = Text ''800'', style_height = Text ''1000'',
               children =
                 [Resizable \<lparr>size_prop = \<lparr>width = Numeric 800, height = Numeric 600\<rparr>,
                             minWidth = None, minHeight = None,
                             maxWidth = None, maxHeight = None\<rparr>
                    (Content Image),
                  Draggable ''parent'' \<lparr>pos_x = 0, pos_y = 0\<rparr> (Content Title),
                  Draggable ''parent'' \<lparr>pos_x = 0, pos_y = 0\<rparr> (Content QRCode)]\<rparr>
   \<and> clickDownload_r (\<lambda>n. Rejected ''SecurityError'')
        (handle_r example_runtime
           (Submit (example_form \<lparr>img_src = ''data:,'', img_width = 2000, img_height = 1000\<rparr>))
           useState_r) =
       (handle_r example_runtime
           (Submit (example_form \<lparr>img_src = ''data:,'', img_width = 2000, img_height = 1000\<rparr>))
           useState_r,
        [Toast \<lparr>toast_title = ''Error'',
                  toast_description = ''Could not download poster. Please try again.'',
                  toast_variant = ''destructive''\<rparr>])
   \<and> render_a (step_a example_runtime
        (Submit (example_form \<lparr>img_src = ''data:,'', img_width = 2000, img_height = 1000\<rparr>))
        useState_a)
       = Some \<lparr>style_width = Text ''344'', style_height = Text ''444'',
               children =
                 [Draggable ''parent'' \<lparr>pos_x = 0, pos_y = 0\<rparr>
                    (Resizable \<lparr>size_prop = \<lparr>width = Numeric 344, height = Numeric 172\<rparr>,
                                minWidth = Some (Numeric 100),
                                minHeight = Some (Numeric 100),
                                maxWidth = Some (Text ''344''),
                                maxHeight = Some (Text ''444'')\<rparr>
                       (Content Image)),
                  Draggable ''parent'' \<lparr>pos_x = 20, pos_y = 20\<rparr> (Content Title),
                  Draggable ''parent'' \<lparr>pos_x = 20, pos_y = 80\<rparr> (Content Subtitle),
                  Draggable ''parent'' \<lparr>pos_x = 20, pos_y = 140\<rparr> (Content QRCode)]\<rparr>
   \<and> clickDownload_a example_runtime (\<lambda>n. Rejected ''SecurityError'')
        (step_a example_runtime
           (Submit (example_form \<lparr>img_src = ''data:,'', img_width = 2000, img_height = 1000\<rparr>))
           useState_a) =
       (step_a example_runtime
           (Submit (example_form \<lparr>img_src = ''data:,'', img_width = 2000, img_height = 1000\<rparr>))
           useState_a,
        [Toast \<lparr>toast_title = ''Error'',
                  toast_description = ''Could not download poster. Please try again.'',
                  toast_variant = ''destructive''\<rparr>])
   \<and> render_b (step_b example_runtime
        (Submit (example_form \<lparr>img_src = ''data:,'', img_width = 2000, img_height = 1000\<rparr>))
        useState_b)
       = Some \<lparr>style_width = Numeric 1080, style_height = Numeric 1920,
               children =
                 [Draggable ''parent'' \<lparr>pos_x = 0, pos_y = 0\<rparr>
                    (Resizable \<lparr>size_prop = \<lparr>width = Numeric 1080, height = Numeric 540\<rparr>,
                                minWidth = Some (Numeric 100),
                                minHeight = Some (Numeric 100),
                                maxWidth = Some (Numeric 1080),
                                maxHeight = Some (Numeric 1920)\<rparr>
                       (Content Image)),
                  Draggable ''parent'' \<lparr>pos_x = 20, pos_y = 20\<rparr> (Content Title),
                  Draggable ''parent'' \<lparr>pos_x = 20, pos_y = 80\<rparr> (Content Subtitle),
                  Draggable ''parent'' \<lparr>pos_x = 20, pos_y = 1800\<rparr> (Content QRCode)]\<rparr>
   \<and> clickDownload_b example_runtime (\<lambda>n. Rejected ''SecurityError'')
        (step_b example_runtime
           (Submit (example_form \<lparr>img_src = ''data:,'', img_width = 2000, img_height = 1000\<rparr>))
           useState_b) =
       (step_b example_runtime
           (Submit (example_form \<lparr>img_src = ''data:,'', img_width = 2000, img_height = 1000\<rparr>))
           useState_b,
        [Toast \<lparr>toast_title = ''Error'',
                  toast_description = ''Could not download poster. Please try again.'',
                  toast_variant = ''destructive''\<rparr>])"
proof -
  let ?T = "\<lambda>n::surface. (Rejected ''SecurityError'' :: string promise)"
  let ?I = "\<lparr>img_src = ''data:,'', img_width = 2000, img_height = 1000\<rparr>"
  let ?rt = example_runtime
  let ?sr = "handle_r ?rt (Submit (example_form ?I)) useState_r"
  let ?sa = "step_a ?rt (Submit (example_form ?I)) useState_a"
  let ?sb = "step_b ?rt (Submit (example_form ?I)) useState_b"
  have r: "render_r ?sr
       = Some \<lparr>style_width = Text ''800'', style_height = Text ''1000'',
               children =
                 [Resizable \<lparr>size_prop = \<lparr>width = Numeric 800, height = Numeric 600\<rparr>,
                             minWidth = None, minHeight = None,
                             maxWidth = None, maxHeight = None\<rparr>
                    (Content Image),
                  Draggable ''parent'' \<lparr>pos_x = 0, pos_y = 0\<rparr> (Content Title),
                  Draggable ''parent'' \<lparr>pos_x = 0, pos_y = 0\<rparr> (Content QRCode)]\<rparr>"
    by (subst example_submit_r) (simp add: render_r_def useState_r_def)
  have a: "render_a ?sa
       = Some \<lparr>style_width = Text ''344'', style_height = Text ''444'',
               children =
                 [Draggable ''parent'' \<lparr>pos_x = 0, pos_y = 0\<rparr>
                    (Resizable \<lparr>size_prop = \<lparr>width = Numeric 344, height = Numeric 172\<rparr>,
                                minWidth = Some (Numeric 100),
                                minHeight = Some (Numeric 100),
                                maxWidth = Some (Text ''344''),
                                maxHeight = Some (Text ''444'')\<rparr>
                       (Content Image)),
                  Draggable ''parent'' \<lparr>pos_x = 20, pos_y = 20\<rparr> (Content Title),
                  Draggable ''parent'' \<lparr>pos_x = 20, pos_y = 80\<rparr> (Content Subtitle),
                  Draggable ''parent'' \<lparr>pos_x = 20, pos_y = 140\<rparr> (Content QRCode)]\<rparr>"
    by (subst example_submit_a) (simp add: render_a_def useState_a_def img_onload_def)
  have b: "render_b ?sb
       = Some \<lparr>style_width = Numeric 1080, style_height = Numeric 1920,
               children =
                 [Draggable ''parent'' \<lparr>pos_x = 0, pos_y = 0\<rparr>
                    (Resizable \<lparr>size_prop = \<lparr>width = Numeric 1080, height = Numeric 540\<rparr>,
                                minWidth = Some (Numeric 100),
                                minHeight = Some (Numeric 100),
                                maxWidth = Some (Numeric 1080),
                                maxHeight = Some (Numeric 1920)\<rparr>
                       (Content Image)),
                  Draggable ''parent'' \<lparr>pos_x = 20, pos_y = 20\<rparr> (Content Title),
                  Draggable ''parent'' \<lparr>pos_x = 20, pos_y = 80\<rparr> (Content Subtitle),
                  Draggable ''parent'' \<lparr>pos_x = 20, pos_y = 1800\<rparr> (Content QRCode)]\<rparr>"
    by (subst example_submit_b) (simp add: render_b_def useState_b_def img_onload_def)
  have n: "\<not> generatedPoster_r useState_r" "\<not> generatedPoster useState_a"
    "\<not> generatedPoster_b useState_b"
    by (simp_all add: useState_r_def useState_a_def useState_b_def)
  note t1 = export_failures [where toPng = ?T and rt = ?rt and sr = useState_r
      and sa = useState_a and sb = useState_b]
  note t2 = export_failures [where toPng = ?T and rt = ?rt and sr = ?sr and sa = ?sa
      and sb = ?sb and err = "''SecurityError''", unfolded r a b]
  from n t1 t2 r a b show ?thesis by simp
qed

section \<open>Committing twice\<close>

text \<open>
  C8 (as the code has it). A drag commit stores the reported position: committing the
  same position twice gives the state of committing it once, for every layer and every
  position. A resize commit of part_001 adds the reported delta to the stored size, a pair
  of numbers: committing the delta \<open>d\<close> twice gives the state of committing \<open>2 d\<close>
  once, and equals committing it once exactly when \<open>d\<close> is zero. The resize handler of
  PosterGenerator.tsx stores the reported size, and committing it twice gives the state of
  committing it once.
\<close>

theorem commit_twice:
  "step_a rt (DragStop l p) (step_a rt (DragStop l p) sa) = step_a rt (DragStop l p) sa
   \<and> step_b rt (DragStop l p) (step_b rt (DragStop l p) sb) = step_b rt (DragStop l p) sb
   \<and> handle_r rt (DragStop l p) (handle_r rt (DragStop l p) sr) = handle_r rt (DragStop l p) sr
   \<and> handle_r rt (ResizeStop size') (handle_r rt (ResizeStop size') sr)
       = handle_r rt (ResizeStop size') sr
   \<and> step_a rt (ResizeStop d) (step_a rt (ResizeStop d) sa)
       = step_a rt (ResizeStop \<lparr>width = 2 * width d, height = 2 * height d\<rparr>) sa
   \<and> (step_a rt (ResizeStop d) (step_a rt (ResizeStop d) sa) = step_a rt (ResizeStop d) sa
        \<longleftrightarrow> d = \<lparr>width = 0, height = 0\<rparr>)
   \<and> (imageSize_b sb = \<lparr>width = Numeric x, height = Numeric y\<rparr> \<longrightarrow>
        step_b rt (ResizeStop d) (step_b rt (ResizeStop d) sb)
          = step_b rt (ResizeStop \<lparr>width = 2 * width d, height = 2 * height d\<rparr>) sb
        \<and> (step_b rt (ResizeStop d) (step_b rt (ResizeStop d) sb) = step_b rt (ResizeStop d) sb
             \<longleftrightarrow> d = \<lparr>width = 0, height = 0\<rparr>))"
proof -
  have drag: "onStop l p (onStop l p sa) = onStop l p sa" by (cases l) simp_all
  have drag_b: "onStop_b l p (onStop_b l p sb) = onStop_b l p sb" by (cases l) simp_all
  have drag_r: "onStop_r l p (onStop_r l p sr) = onStop_r l p sr" by (cases l) simp_all
  have twice: "onResizeStop d (onResizeStop d sa)
       = onResizeStop \<lparr>width = 2 * width d, height = 2 * height d\<rparr> sa"
    by (simp add: onResizeStop_def)
  have once: "(onResizeStop \<lparr>width = 2 * width d, height = 2 * height d\<rparr> sa = onResizeStop d sa)
       \<longleftrightarrow> d = \<lparr>width = 0, height = 0\<rparr>"
    by (simp add: onResizeStop_def imageSize_update_eq dims_eq)
  have twice_b: "imageSize_b sb = \<lparr>width = Numeric x, height = Numeric y\<rparr> \<longrightarrow>
       onResizeStop_b rt d (onResizeStop_b rt d sb)
       = onResizeStop_b rt \<lparr>width = 2 * width d, height = 2 * height d\<rparr> sb"
    by (simp add: onResizeStop_b_def)
  have once_b: "imageSize_b sb = \<lparr>width = Numeric x, height = Numeric y\<rparr> \<longrightarrow>
       ((onResizeStop_b rt \<lparr>width = 2 * width d, height = 2 * height d\<rparr> sb
          = onResizeStop_b rt d sb)
        \<longleftrightarrow> d = \<lparr>width = 0, height = 0\<rparr>)"
    by (simp add: onResizeStop_b_def imageSize_b_update_eq dims_eq)
  show ?thesis
    using drag drag_b drag_r twice once twice_b once_b
    by (simp add: step_a_DragStop step_b_DragStop step_a_ResizeStop step_b_ResizeStop
          onResize_r_def)
qed

theorem commit_twice_witness:
  "imageSize_b (step_b example_runtime
      (Submit (example_form \<lparr>img_src = ''data:,'', img_width = 2000, img_height = 1000\<rparr>))
      useState_b)
     = \<lparr>width = Numeric 1080, height = Numeric 540\<rparr>
   \<and> step_b example_runtime (ResizeStop \<lparr>width = -80, height = -40\<rparr>)
       (step_b example_runtime (ResizeStop \<lparr>width = -80, height = -40\<rparr>)
          (step_b example_runtime
             (Submit (example_form \<lparr>img_src = ''data:,'', img_width = 2000, img_height = 1000\<rparr>))
             useState_b))
     = step_b example_runtime (ResizeStop \<lparr>width = -160, height = -80\<rparr>)
         (step_b example_runtime
            (Submit (example_form \<lparr>img_src = ''data:,'', img_width = 2000, img_height = 1000\<rparr>))
            useState_b)
   \<and> step_b example_runtime (ResizeStop \<lparr>width = -80, height = -40\<rparr>)
       (step_b example_runtime (ResizeStop \<lparr>width = -80, height = -40\<rparr>)
          (step_b example_runtime
             (Submit (example_form \<lparr>img_src = ''data:,'', img_width = 2000, img_height = 1000\<rparr>))
             useState_b))
     \<noteq> step_b example_runtime (ResizeStop \<lparr>width = -80, height = -40\<rparr>)
         (step_b example_runtime
            (Submit (example_form \<lparr>img_src = ''data:,'', img_width = 2000, img_height = 1000\<rparr>))
            useState_b)"
proof -
  let ?I = "\<lparr>img_src = ''data:,'', img_width = 2000, img_height = 1000\<rparr>"
  let ?rt = example_runtime
  have sb: "imageSize_b (step_b ?rt (Submit (example_form ?I)) useState_b)
      = \<lparr>width = Numeric 1080, height = Numeric 540\<rparr>"
    by (subst example_submit_b) (simp add: img_onload_def)
  note t = commit_twice
    [where rt = ?rt and sb = "step_b ?rt (Submit (example_form ?I)) useState_b"
       and d = "\<lparr>width = -80, height = -40\<rparr>" and x = 1080 and y = 540,
     THEN conjunct2, THEN conjunct2, THEN conjunct2, THEN conjunct2, THEN conjunct2,
     THEN conjunct2, THEN mp, OF sb]
  have ne: "\<lparr>width = - 80, height = - 40\<rparr> \<noteq> \<lparr>width = 0 :: real, height = 0 :: real\<rparr>"
    by simp
  have d2: "\<lparr>width = 2 * width \<lparr>width = - 80 :: real, height = - 40 :: real\<rparr>,
              height = 2 * height \<lparr>width = - 80 :: real, height = - 40 :: real\<rparr>\<rparr>
            = \<lparr>width = - 160, height = - 80\<rparr>"
    by simp
  from sb t [unfolded d2] ne show ?thesis by blast
qed

theorem resize_twice_drifts:
  "imageSize_b (step_b example_runtime
      (Submit (example_form \<lparr>img_src = ''data:,'', img_width = 2000, img_height = 1000\<rparr>))
      useState_b)
     = \<lparr>width = Numeric 1080, height = Numeric 540\<rparr>
   \<and> imageSize_b (step_b example_runtime (ResizeStop \<lparr>width = -80, height = -40\<rparr>)
        (step_b example_runtime
           (Submit (example_form \<lparr>img_src = ''data:,'', img_width = 2000, img_height = 1000\<rparr>))
           useState_b))
     = \<lparr>width = Numeric 1000, height = Numeric 500\<rparr>
   \<and> imageSize_b (step_b example_runtime (ResizeStop \<lparr>width = -80, height = -40\<rparr>)
        (step_b example_runtime (ResizeStop \<lparr>width = -80, height = -40\<rparr>)
           (step_b example_runtime
              (Submit (example_form \<lparr>img_src = ''data:,'', img_width = 2000, img_height = 1000\<rparr>))
              useState_b)))
     = \<lparr>width = Numeric 920, height = Numeric 460\<rparr>
   \<and> imageSize (step_a example_runtime (ResizeStop \<lparr>width = -80, height = -40\<rparr>)
        (step_a example_runtime
           (Submit (example_form \<lparr>img_src = ''data:,'', img_width = 2000, img_height = 1000\<rparr>))
           useState_a))
     = \<lparr>width = 264, height = 132\<rparr>
   \<and> imageSize (step_a example_runtime (ResizeStop \<lparr>width = -80, height = -40\<rparr>)
        (step_a example_runtime (ResizeStop \<lparr>width = -80, height = -40\<rparr>)
           (step_a example_runtime
              (Submit (example_form \<lparr>img_src = ''data:,'', img_width = 2000, img_height = 1000\<rparr>))
              useState_a)))
     = \<lparr>width = 184, height = 92\<rparr>"
proof -
  let ?I = "\<lparr>img_src = ''data:,'', img_width = 2000, img_height = 1000\<rparr>"
  let ?rt = example_runtime
  have sa: "step_a ?rt (Submit (example_form ?I)) useState_a =
     useState_a\<lparr>imageSize := \<lparr>width = 344, height = 172\<rparr>,
       imagePreview := Some ?I, generatedPoster := True\<rparr>"
    by (subst example_submit_a) (simp add: img_onload_def useState_a_def)
  have sb: "step_b ?rt (Submit (example_form ?I)) useState_b =
     useState_b\<lparr>imageSize_b := \<lparr>width = Numeric 1080, height = Numeric 540\<rparr>,
       imagePreview_b := Some ?I, generatedPoster_b := True,
       qrCodePosition_b := \<lparr>pos_x = 20, pos_y = 1800\<rparr>\<rparr>"
    by (subst example_submit_b) (simp add: img_onload_def useState_b_def)
  show ?thesis
    unfolding sa sb
    by (simp add: step_a_ResizeStop step_b_ResizeStop onResizeStop_def onResizeStop_b_def
          useState_a_def useState_b_def)
qed

section \<open>Validation of width and height\<close>

text \<open>
  C9 (as the code has it). In PosterGenerator.tsx the width and the height pass validation
  exactly when the raw value is a string of one or more decimal digits, and the result is
  its decimal value: every value that is not a string, the empty string, and every string
  with a sign, a point or any other character that is not a digit (so every negative and
  every non-numeric value) fails, and the decimal numeral of every natural number passes
  and yields that number, the numeral of zero included.
\<close>

theorem width_height_digits:
  "width_r (JString t) =
     (if t \<noteq> [] \<and> list_all digit t then Inr (real (Number_digits t))
      else Inl (invalid_string ''Width must be a number''))
   \<and> height_r (JString t) =
     (if t \<noteq> [] \<and> list_all digit t then Inr (real (Number_digits t))
      else Inl (invalid_string ''Height must be a number''))
   \<and> width_r (JNumber x) = Inl invalid_type \<and> height_r (JNumber x) = Inl invalid_type
   \<and> width_r JUndefined = Inl invalid_type \<and> height_r JUndefined = Inl invalid_type
   \<and> width_r (JString (decimal n)) = Inr (real n)
   \<and> height_r (JString (decimal n)) = Inr (real n)
   \<and> width_r (JString (t @ CHR ''-'' # t')) = Inl (invalid_string ''Width must be a number'')
   \<and> height_r (JString (t @ CHR ''-'' # t')) = Inl (invalid_string ''Height must be a number'')
   \<and> width_r (JString (t @ CHR ''.'' # t')) = Inl (invalid_string ''Width must be a number'')
   \<and> height_r (JString (t @ CHR ''.'' # t')) = Inl (invalid_string ''Height must be a number'')"
  using decimal_digits [of n]
  by (simp add: width_r_def height_r_def matches_digits_def Number_digits_decimal digit_def)

theorem zero_passes_validation:
  "width_r (JString ''0'') = Inr 0 \<and> height_r (JString ''0'') = Inr 0"
  by (simp add: width_r_def height_r_def matches_digits_def Number_digits_def digit_def)

section \<open>What a commit leaves alone\<close>

text \<open>
  C10. A drag commit of one layer changes the position of that layer and nothing else of
  the state: the positions of the other layers and the image size stay. A resize commit
  changes the image size and nothing else: the four positions stay.
\<close>

theorem commit_frame:
  "step_a rt (DragStop Image p) sa = sa\<lparr>imagePosition := p\<rparr>
   \<and> step_a rt (DragStop Title p) sa = sa\<lparr>titlePosition := p\<rparr>
   \<and> step_a rt (DragStop Subtitle p) sa = sa\<lparr>subtitlePosition := p\<rparr>
   \<and> step_a rt (DragStop QRCode p) sa = sa\<lparr>qrCodePosition := p\<rparr>
   \<and> step_a rt (ResizeStop d) sa =
       sa\<lparr>imageSize := \<lparr>width = width (imageSize sa) + width d,
                         height = height (imageSize sa) + height d\<rparr>\<rparr>
   \<and> step_b rt (DragStop Image p) sb = sb\<lparr>imagePosition_b := p\<rparr>
   \<and> step_b rt (DragStop Title p) sb = sb\<lparr>titlePosition_b := p\<rparr>
   \<and> step_b rt (DragStop Subtitle p) sb = sb\<lparr>subtitlePosition_b := p\<rparr>
   \<and> step_b rt (DragStop QRCode p) sb = sb\<lparr>qrCodePosition_b := p\<rparr>
   \<and> step_b rt (ResizeStop d) sb =
       sb\<lparr>imageSize_b := \<lparr>width = plus_number rt (width (imageSize_b sb)) (width d),
                           height = plus_number rt (height (imageSize_b sb)) (height d)\<rparr>\<rparr>
   \<and> onStop_r Title p sr = sr\<lparr>titlePosition_r := p\<rparr>
   \<and> onStop_r QRCode p sr = sr\<lparr>qrCodePosition_r := p\<rparr>
   \<and> onResize_r size' sr = sr\<lparr>imageSize_r := size'\<rparr>"
  by (simp add: step_a_DragStop step_b_DragStop step_a_ResizeStop step_b_ResizeStop
        onResizeStop_def onResizeStop_b_def onResize_r_def)

end
